theory Spec2Isabelle
  imports Complex_Main
begin

section \<open>Numeric conventions\<close>

text \<open>
  The analytical core of the repository (\<^verbatim>\<open>backend/models\<close> and the pipeline function
  \<^verbatim>\<open>_process_value\<close> of \<^verbatim>\<open>backend/api/main.py\<close>) computes on Python floats.  A float
  is represented by the real number it denotes; infinities and NaN are not represented.
  Python's \<^verbatim>\<open>None\<close> is \<open>None\<close> of an option type, a Python list is a HOL list, and an
  exception is a value \<open>Inl e\<close> of a sum type.

  Float operations round.  The pipeline is modelled with the exact operations on reals,
  which the float results approximate.  The functions whose branches compare a computed
  statistic with 0 or with another computed value (\<^verbatim>\<open>score_point\<close> in its general form,
  \<^verbatim>\<open>compute_cp_cpk\<close> and \<^verbatim>\<open>detect_run_rules\<close>) take the arithmetic as an argument,
  see \<open>float_arith\<close> below, and what is proved about them holds for every arithmetic.
\<close>

datatype error = ZeroDivisionError | ValueError

text \<open>Python's \<^verbatim>\<open>a / b\<close> on floats raises \<^verbatim>\<open>ZeroDivisionError\<close> when \<^verbatim>\<open>b == 0\<close>.\<close>

definition py_truediv :: "real \<Rightarrow> real \<Rightarrow> error + real" where
  "py_truediv a b = (if b = 0 then Inl ZeroDivisionError else Inr (a / b))"

text \<open>
  The exact mean of a sample: the sum divided by the number of elements.  \<^verbatim>\<open>x.mean()\<close>
  of numpy returns a float close to it, not always equal: the computed mean of equal
  values can differ from them in the last digits.  Every call of the source is guarded so
  that the array is not empty.
\<close>

definition np_mean :: "real list \<Rightarrow> real" where
  "np_mean xs = sum_list xs / real (length xs)"

text \<open>
  The exact sample standard deviation with divisor \<open>n - 1\<close>: the square root of the sum of
  squared deviations from the mean, divided by \<open>n - 1\<close>.  \<^verbatim>\<open>x.std(ddof=1)\<close> of numpy
  returns a float close to it; for a sample of equal values the exact deviation is 0 while
  the computed one can be a small positive number.  Every call of the source is guarded by
  \<open>n > 1\<close>.
\<close>

definition np_std_ddof1 :: "real list \<Rightarrow> real" where
  "np_std_ddof1 xs =
     sqrt (sum_list (map (\<lambda>x. (x - np_mean xs)\<^sup>2) xs) / (real (length xs) - 1))"

text \<open>\<^verbatim>\<open>x.max()\<close> and \<^verbatim>\<open>x.min()\<close> of numpy raise \<^verbatim>\<open>ValueError\<close> on an empty array.\<close>

definition np_max :: "real list \<Rightarrow> error + real" where
  "np_max xs = (case xs of [] \<Rightarrow> Inl ValueError | y # ys \<Rightarrow> Inr (fold max ys y))"

definition np_min :: "real list \<Rightarrow> error + real" where
  "np_min xs = (case xs of [] \<Rightarrow> Inl ValueError | y # ys \<Rightarrow> Inr (fold min ys y))"

text \<open>
  The float arithmetic as a parameter: the results of \<^verbatim>\<open>x.mean()\<close> and
  \<^verbatim>\<open>x.std(ddof=1)\<close> on an array, and of the float operations \<^verbatim>\<open>-\<close>, \<^verbatim>\<open>*\<close> and
  \<^verbatim>\<open>/\<close>.  Nothing is assumed about them: they may round in any way.  Comparisons,
  \<^verbatim>\<open>abs\<close>, \<^verbatim>\<open>min\<close>, \<^verbatim>\<open>max\<close> and \<^verbatim>\<open>np.sign\<close> are exact on floats and are the
  operations of the reals.
\<close>

record float_arith =
  arr_mean :: "real list \<Rightarrow> real"
  arr_std :: "real list \<Rightarrow> real"
  fl_sub :: "real \<Rightarrow> real \<Rightarrow> real"
  fl_mul :: "real \<Rightarrow> real \<Rightarrow> real"
  fl_div :: "real \<Rightarrow> real \<Rightarrow> real"

text \<open>The arithmetic that does not round.\<close>

definition exact_arith :: float_arith where
  "exact_arith =
     \<lparr>arr_mean = np_mean, arr_std = np_std_ddof1, fl_sub = (\<lambda>a b. a - b),
      fl_mul = (\<lambda>a b. a * b), fl_div = (\<lambda>a b. a / b)\<rparr>"

text \<open>\<^verbatim>\<open>a / b\<close> in an arithmetic: it raises exactly when the divisor is 0.\<close>

definition fl_truediv :: "float_arith \<Rightarrow> real \<Rightarrow> real \<Rightarrow> error + real" where
  "fl_truediv ar a b = (if b = 0 then Inl ZeroDivisionError else Inr (fl_div ar a b))"

section \<open>The digital twin: \<^verbatim>\<open>backend/models/digital_twin.py\<close>\<close>

record ema_config =
  alpha :: real

text \<open>The default of the dataclass \<^verbatim>\<open>EmaConfig\<close>: \<^verbatim>\<open>alpha = 0.3\<close>.\<close>

definition default_ema_config :: ema_config where
  "default_ema_config = \<lparr>alpha = 3 / 10\<rparr>"

record digital_twin_model =
  twin_config :: ema_config
  last_ema :: "real option"
  history :: "real list"

text \<open>
  \<^verbatim>\<open>deque(maxlen=m).append(x)\<close>: the element is added on the right and, when the deque is
  full, elements are dropped from the left.
\<close>

definition deque_append :: "nat \<Rightarrow> 'a list \<Rightarrow> 'a \<Rightarrow> 'a list" where
  "deque_append maxlen q x = (let q' = q @ [x] in drop (length q' - maxlen) q')"

text \<open>\<^verbatim>\<open>DigitalTwinModel.__init__\<close>\<close>

definition new_digital_twin :: "ema_config \<Rightarrow> digital_twin_model" where
  "new_digital_twin cfg = \<lparr>twin_config = cfg, last_ema = None, history = []\<rparr>"

definition reset :: "digital_twin_model \<Rightarrow> digital_twin_model" where
  "reset t = t\<lparr>last_ema := None, history := []\<rparr>"

definition update :: "digital_twin_model \<Rightarrow> real \<Rightarrow> digital_twin_model" where
  "update t v =
     (let t1 = t\<lparr>history := deque_append 1000 (history t) v\<rparr>
      in case last_ema t1 of
           None \<Rightarrow> t1\<lparr>last_ema := Some v\<rparr>
         | Some e \<Rightarrow>
             (let a = alpha (twin_config t1)
              in t1\<lparr>last_ema := Some (a * v + (1 - a) * e)\<rparr>))"

definition predict :: "digital_twin_model \<Rightarrow> real option" where
  "predict t = last_ema t"

definition get_residual :: "digital_twin_model \<Rightarrow> real \<Rightarrow> real" where
  "get_residual t v = (case last_ema t of None \<Rightarrow> 0 | Some e \<Rightarrow> v - e)"

text \<open>The loop \<^verbatim>\<open>for v in series: self.update(float(v))\<close> of \<^verbatim>\<open>fit_from_series\<close>.\<close>

fun update_each :: "digital_twin_model \<Rightarrow> real list \<Rightarrow> digital_twin_model" where
  "update_each t [] = t"
| "update_each t (v # vs) = update_each (update t v) vs"

definition fit_from_series :: "digital_twin_model \<Rightarrow> real list \<Rightarrow> digital_twin_model" where
  "fit_from_series t series = update_each (reset t) series"

section \<open>The sampling engine: \<^verbatim>\<open>backend/models/sampling.py\<close>\<close>

text \<open>
  The four reason texts of \<^verbatim>\<open>SamplingEngine.decide\<close>, in the order of the source:
  "Anomalia detectada (IsolationForest ou |z| alto).", "Sem estatistica suficiente.",
  "Residuo moderadamente distante da media (|z| >= 2)." and
  "Residuo dentro de faixa esperada.".  The levels are the strings of the source.
\<close>

datatype reason_text =
  AnomalyDetected | InsufficientStatistics | ModeratelyDistant | WithinExpectedRange

record sampling_decision =
  level :: string
  reason :: reason_text

definition decide :: "bool \<Rightarrow> real option \<Rightarrow> sampling_decision" where
  "decide is_anom zscore_res =
     (if is_anom then \<lparr>level = ''critico'', reason = AnomalyDetected\<rparr>
      else case zscore_res of
             None \<Rightarrow> \<lparr>level = ''normal'', reason = InsufficientStatistics\<rparr>
           | Some zr \<Rightarrow>
               (let z = \<bar>zr\<bar>
                in if z \<ge> 2 then \<lparr>level = ''atencao'', reason = ModeratelyDistant\<rparr>
                   else \<lparr>level = ''normal'', reason = WithinExpectedRange\<rparr>))"

section \<open>The anomaly detector: \<^verbatim>\<open>backend/models/anomaly.py\<close>\<close>

record anomaly_config =
  contamination :: real
  zscore_threshold :: real

text \<open>The defaults of the dataclass \<^verbatim>\<open>AnomalyConfig\<close>: 0.03 and 3.0.\<close>

definition default_anomaly_config :: anomaly_config where
  "default_anomaly_config = \<lparr>contamination = 3 / 100, zscore_threshold = 3\<rparr>"

text \<open>
  \<^verbatim>\<open>IsolationForest\<close> belongs to scikit-learn, not to the repository.  With a fixed
  \<^verbatim>\<open>random_state\<close> a fitted forest is determined by the constructor's arguments and the
  training sample, so a fitted forest is represented by these three values.  Its two
  scoring methods, \<^verbatim>\<open>decision_function\<close> and \<^verbatim>\<open>predict\<close> (1 normal, -1 anomaly),
  are parameters of the model, assumed to return on every point.
\<close>

datatype isolation_forest =
  IsolationForest (forest_contamination: real) (forest_random_state: nat)
    (forest_training: "real list")

record iforest_api =
  decision_function :: "isolation_forest \<Rightarrow> real \<Rightarrow> real"
  iforest_predict :: "isolation_forest \<Rightarrow> real \<Rightarrow> int"

record anomaly_detector_model =
  detector_config :: anomaly_config
  model :: "isolation_forest option"
  fitted :: bool
  residuals_history :: "real list"

text \<open>\<^verbatim>\<open>AnomalyDetector.__init__\<close>\<close>

definition new_anomaly_detector :: "anomaly_config \<Rightarrow> anomaly_detector_model" where
  "new_anomaly_detector cfg =
     \<lparr>detector_config = cfg, model = None, fitted = False, residuals_history = []\<rparr>"

definition fit :: "anomaly_detector_model \<Rightarrow> real list \<Rightarrow> anomaly_detector_model" where
  "fit d residuals =
     (if length residuals < 10 then d\<lparr>fitted := False\<rparr>
      else d\<lparr>model := Some (IsolationForest (contamination (detector_config d)) 42 residuals),
             fitted := True,
             residuals_history := residuals\<rparr>)"

definition partial_update :: "anomaly_detector_model \<Rightarrow> real \<Rightarrow> anomaly_detector_model" where
  "partial_update d r =
     (let d1 = d\<lparr>residuals_history := residuals_history d @ [r]\<rparr>
      in if length (residuals_history d1) mod 50 = 0 then fit d1 (residuals_history d1)
         else d1)"

text \<open>The dictionary returned by \<^verbatim>\<open>score_point\<close>.\<close>

record scores =
  residual :: real
  zscore_residual :: real
  iforest_score :: real
  is_anomaly :: bool

text \<open>
  The block of \<^verbatim>\<open>score_point\<close> that consults the forest: the pair of the local
  variables \<^verbatim>\<open>score_if\<close> and \<^verbatim>\<open>is_iforest\<close>.
\<close>

definition iforest_signal :: "iforest_api \<Rightarrow> anomaly_detector_model \<Rightarrow> real \<Rightarrow> real \<times> bool" where
  "iforest_signal api d res =
     (if fitted d then
        (case model d of
           None \<Rightarrow> (0, False)
         | Some m \<Rightarrow> (decision_function api m res, iforest_predict api m res = - 1))
      else (0, False))"

definition score_point :: "iforest_api \<Rightarrow> anomaly_detector_model \<Rightarrow> real \<Rightarrow> error + scores" where
  "score_point api d res =
     (let hist = residuals_history d @ [res];
          mean = (if length hist > 0 then np_mean hist else 0);
          std = (if length hist > 1 then np_std_ddof1 hist else 0)
      in case (if std > 0 then py_truediv (res - mean) std else Inr 0) of
           Inl e \<Rightarrow> Inl e
         | Inr z \<Rightarrow>
             (let (score_if, is_iforest) = iforest_signal api d res;
                  is_z = (\<bar>z\<bar> \<ge> zscore_threshold (detector_config d));
                  is_anom = (is_iforest \<or> is_z)
              in Inr \<lparr>residual = res, zscore_residual = z, iforest_score = score_if,
                      is_anomaly = is_anom\<rparr>))"

text \<open>
  \<^verbatim>\<open>score_point\<close> with the arithmetic as an argument: the same function, with the mean,
  the deviation, the subtraction and the division taken from \<open>ar\<close>.  \<open>score_point\<close> above
  is its instance at \<open>exact_arith\<close>.
\<close>

definition score_point_with ::
  "float_arith \<Rightarrow> iforest_api \<Rightarrow> anomaly_detector_model \<Rightarrow> real \<Rightarrow> error + scores" where
  "score_point_with ar api d res =
     (let hist = residuals_history d @ [res];
          mean = (if length hist > 0 then arr_mean ar hist else 0);
          std = (if length hist > 1 then arr_std ar hist else 0)
      in case (if std > 0 then fl_truediv ar (fl_sub ar res mean) std else Inr 0) of
           Inl e \<Rightarrow> Inl e
         | Inr z \<Rightarrow>
             (let (score_if, is_iforest) = iforest_signal api d res;
                  is_z = (\<bar>z\<bar> \<ge> zscore_threshold (detector_config d));
                  is_anom = (is_iforest \<or> is_z)
              in Inr \<lparr>residual = res, zscore_residual = z, iforest_score = score_if,
                      is_anomaly = is_anom\<rparr>))"

section \<open>The pipeline: \<^verbatim>\<open>_process_value\<close> of \<^verbatim>\<open>backend/api/main.py\<close>\<close>

text \<open>
  The table \<^verbatim>\<open>Measurement\<close> of \<^verbatim>\<open>backend/db.py\<close>, without the key assigned by the
  database and without the seven metadata columns, which \<^verbatim>\<open>_process_value\<close> copies from
  \<^verbatim>\<open>meta\<close> and never reads.  The nullable columns are options.  A timestamp is a number.
\<close>

record measurement =
  timestamp :: nat
  value_real :: real
  value_pred :: "real option"
  m_residual :: "real option"
  m_zscore_residual :: "real option"
  m_iforest_score :: "real option"
  m_is_anomaly :: "bool option"
  sampling_level :: "string option"
  source :: string

text \<open>The dictionary returned by \<^verbatim>\<open>_process_value\<close>: the measurement and the reason.\<close>

record processed = measurement +
  sampling_reason :: reason_text

text \<open>
  An alert of \<^verbatim>\<open>datastore.add_alert\<close>: the level and the value that the message
  "Anomalia detectada (valor=...)" prints.
\<close>

record alert =
  alert_level :: string
  alert_value :: real

text \<open>
  The state that \<^verbatim>\<open>_process_value\<close> reads and writes: the two global objects
  \<^verbatim>\<open>digital_twin\<close> and \<^verbatim>\<open>anomaly_detector\<close>, and the two tables of the datastore as
  lists in insertion order.
\<close>

record pipeline_state =
  digital_twin :: digital_twin_model
  anomaly_detector :: anomaly_detector_model
  measurements :: "measurement list"
  alerts :: "alert list"

text \<open>The globals as the module creates them (and as an upload creates them again).\<close>

definition initial_state :: pipeline_state where
  "initial_state =
     \<lparr>digital_twin = new_digital_twin \<lparr>alpha = 3 / 10\<rparr>,
      anomaly_detector = new_anomaly_detector default_anomaly_config,
      measurements = [], alerts = []\<rparr>"

text \<open>
  \<^verbatim>\<open>_process_value(value, source, timestamp)\<close>; \<open>now\<close> is the value of
  \<^verbatim>\<open>datetime.utcnow()\<close> at the call.
\<close>

definition process_value ::
  "iforest_api \<Rightarrow> nat \<Rightarrow> pipeline_state \<Rightarrow> real \<Rightarrow> string \<Rightarrow> nat option
     \<Rightarrow> error + (processed \<times> pipeline_state)" where
  "process_value api now st v src ts =
     (let pred_before = (case predict (digital_twin st) of None \<Rightarrow> v | Some p \<Rightarrow> p);
          resid = v - pred_before;
          det = partial_update (anomaly_detector st) resid
      in case score_point api det resid of
           Inl e \<Rightarrow> Inl e
         | Inr sc \<Rightarrow>
             (let decision = decide (is_anomaly sc) (Some (zscore_residual sc));
                  twin = update (digital_twin st) v;
                  m = \<lparr>timestamp = (case ts of None \<Rightarrow> now | Some t \<Rightarrow> t),
                       value_real = v,
                       value_pred = Some pred_before,
                       m_residual = Some (residual sc),
                       m_zscore_residual = Some (zscore_residual sc),
                       m_iforest_score = Some (iforest_score sc),
                       m_is_anomaly = Some (is_anomaly sc),
                       sampling_level = Some (level decision),
                       source = src\<rparr>;
                  alerts1 = (if is_anomaly sc
                             then alerts st @ [\<lparr>alert_level = ''warning'', alert_value = v\<rparr>]
                             else alerts st)
              in Inr (measurement.extend m \<lparr>sampling_reason = reason decision\<rparr>,
                      st\<lparr>digital_twin := twin, anomaly_detector := det,
                         measurements := measurements st @ [m], alerts := alerts1\<rparr>)))"

text \<open>
  The pipeline applied value by value, in order, as the loop of \<^verbatim>\<open>upload_file\<close> and
  repeated calls of \<^verbatim>\<open>simulate_step\<close> do; the outputs are collected in order.
\<close>

fun process_values ::
  "iforest_api \<Rightarrow> nat \<Rightarrow> pipeline_state \<Rightarrow> real list \<Rightarrow> string
     \<Rightarrow> error + (processed list \<times> pipeline_state)" where
  "process_values api now st [] src = Inr ([], st)"
| "process_values api now st (v # vs) src =
     (case process_value api now st v src None of
        Inl e \<Rightarrow> Inl e
      | Inr (out, st1) \<Rightarrow>
          (case process_values api now st1 vs src of
             Inl e \<Rightarrow> Inl e
           | Inr (outs, st2) \<Rightarrow> Inr (out # outs, st2)))"

section \<open>Process control statistics: \<^verbatim>\<open>backend/models/cep.py\<close>\<close>

text \<open>Sequencing of computations that may raise: the first error ends the computation.\<close>

definition and_then :: "error + 'a \<Rightarrow> ('a \<Rightarrow> error + 'b) \<Rightarrow> error + 'b" where
  "and_then m f = (case m of Inl e \<Rightarrow> Inl e | Inr a \<Rightarrow> f a)"

text \<open>The dataclass \<^verbatim>\<open>CepStats\<close>; its fields carry the prefix \<open>stats_\<close>.\<close>

record cep_stats =
  stats_mean :: real
  stats_std :: real
  stats_r :: real
  stats_cp :: "real option"
  stats_cpk :: "real option"
  stats_lsl :: real
  stats_usl :: real
  stats_n :: nat

text \<open>
  \<^verbatim>\<open>compute_cp_cpk(values, lsl, usl)\<close>, with the float arithmetic as first argument.
\<close>

definition compute_cp_cpk ::
  "float_arith \<Rightarrow> real list \<Rightarrow> real \<Rightarrow> real \<Rightarrow> error + cep_stats" where
  "compute_cp_cpk ar x lsl usl =
     (let n = length x
      in if n = 0
         then Inr \<lparr>stats_mean = 0, stats_std = 0, stats_r = 0, stats_cp = None,
                   stats_cpk = None, stats_lsl = lsl, stats_usl = usl, stats_n = 0\<rparr>
         else
           (let mean = arr_mean ar x;
                std = (if n > 1 then arr_std ar x else 0)
            in and_then
                 (if n > 1
                  then and_then (np_max x) (\<lambda>mx. and_then (np_min x) (\<lambda>mn.
                       Inr (fl_sub ar mx mn)))
                  else Inr 0)
                 (\<lambda>r. and_then
                    (if std = 0 then Inr (None, None)
                     else and_then (fl_truediv ar (fl_sub ar usl lsl) (fl_mul ar 6 std)) (\<lambda>cp.
                          and_then (fl_truediv ar (fl_sub ar usl mean) (fl_mul ar 3 std)) (\<lambda>cpu.
                          and_then (fl_truediv ar (fl_sub ar mean lsl) (fl_mul ar 3 std)) (\<lambda>cpl.
                          Inr (Some cp, Some (min cpu cpl))))))
                    (\<lambda>(cp, cpk).
                       Inr \<lparr>stats_mean = mean, stats_std = std, stats_r = r, stats_cp = cp,
                            stats_cpk = cpk, stats_lsl = lsl, stats_usl = usl,
                            stats_n = n\<rparr>))))"







section \<open>Notions of the specification\<close>

text \<open>
  The standardized value of \<open>x\<close> against a sample: its distance from the sample mean in
  units of the sample standard deviation (divisor \<open>n - 1\<close>), and 0 when that deviation is
  undefined (fewer than two elements) or not positive.
\<close>

definition zscore_over :: "real list \<Rightarrow> real \<Rightarrow> real" where
  "zscore_over sample x =
     (if length sample > 1 \<and> np_std_ddof1 sample > 0
      then (x - np_mean sample) / np_std_ddof1 sample else 0)"





section \<open>Concrete inputs\<close>

text \<open>
  A forest interface on which the model can run: every point has decision value 0 and the
  label 1 (normal).
\<close>

definition constant_forest_api :: iforest_api where
  "constant_forest_api = \<lparr>decision_function = (\<lambda>m x. 0), iforest_predict = (\<lambda>m x. 1)\<rparr>"


text \<open>An unfitted detector that has observed 49 residuals, all 0.\<close>

definition detector49 :: anomaly_detector_model where
  "detector49 = \<lparr>detector_config = default_anomaly_config, model = None, fitted = False,
                  residuals_history = replicate 49 0\<rparr>"

text \<open>
  The states of the pipeline in which nothing has happened yet but readings of 1028: the
  predictor has no estimate or the estimate 1028, the detector is unfitted and its history
  is \<open>k\<close> zeros.  \<open>quiet_output\<close> is the record emitted for a reading of 1028 in such a
  state, \<open>spike_output\<close> the one emitted for a reading of 1040 after eight of them.
\<close>

definition quiet_state :: "pipeline_state \<Rightarrow> nat \<Rightarrow> bool" where
  "quiet_state st k \<longleftrightarrow>
     (last_ema (digital_twin st) = None \<or> last_ema (digital_twin st) = Some 1028)
     \<and> alpha (twin_config (digital_twin st)) = 3 / 10
     \<and> detector_config (anomaly_detector st) = default_anomaly_config
     \<and> \<not> fitted (anomaly_detector st)
     \<and> residuals_history (anomaly_detector st) = replicate k 0"

definition quiet_output :: "nat \<Rightarrow> string \<Rightarrow> processed" where
  "quiet_output now src =
     \<lparr>timestamp = now, value_real = 1028, value_pred = Some 1028, m_residual = Some 0,
      m_zscore_residual = Some 0, m_iforest_score = Some 0, m_is_anomaly = Some False,
      sampling_level = Some ''normal'', source = src,
      sampling_reason = WithinExpectedRange\<rparr>"

definition spike_output :: "nat \<Rightarrow> string \<Rightarrow> processed" where
  "spike_output now src =
     \<lparr>timestamp = now, value_real = 1040, value_pred = Some 1028, m_residual = Some 12,
      m_zscore_residual = Some (sqrt (18 / 5)), m_iforest_score = Some 0,
      m_is_anomaly = Some False, sampling_level = Some ''normal'', source = src,
      sampling_reason = WithinExpectedRange\<rparr>"

section \<open>Properties of the digital twin\<close>

lemma update_each_foldl: "update_each t vs = foldl update t vs"
  by (induction vs arbitrary: t) simp_all

lemma predict_update_fresh: "last_ema t = None \<Longrightarrow> predict (update t v) = Some v"
  by (simp add: update_def predict_def Let_def)

lemma predict_update_Some:
  "last_ema t = Some e \<Longrightarrow>
     predict (update t v) = Some (alpha (twin_config t) * v + (1 - alpha (twin_config t)) * e)"
  by (simp add: update_def predict_def Let_def)

text \<open>
  Claim C5.  \<^verbatim>\<open>predict()\<close> on a fresh or a reset predictor returns \<^verbatim>\<open>None\<close>;
  \<^verbatim>\<open>update(v)\<close> sets the estimate to \<open>v\<close> when there is none and to
  \<open>alpha * v + (1 - alpha) * e\<close> when the estimate is \<open>e\<close>; after exactly one update
  of a fresh predictor \<^verbatim>\<open>predict()\<close> is \<open>v\<close>; and \<^verbatim>\<open>fit_from_series\<close> is a reset
  followed by the updates in the order of the series.
\<close>

theorem digital_twin_predictor:
  "predict (new_digital_twin cfg) = None
   \<and> predict (reset t) = None
   \<and> (predict t = None \<longrightarrow> predict (update t v) = Some v)
   \<and> (predict t = Some e \<longrightarrow>
        predict (update t v) = Some (alpha (twin_config t) * v + (1 - alpha (twin_config t)) * e))
   \<and> predict (update (new_digital_twin cfg) v) = Some v
   \<and> predict (update (reset t) v) = Some v
   \<and> fit_from_series t vs = foldl update (reset t) vs"
  by (simp add: predict_update_fresh predict_update_Some update_each_foldl
      fit_from_series_def new_digital_twin_def reset_def predict_def [of t]
      predict_def [of "new_digital_twin cfg"] predict_def [of "reset t"]
      predict_def [of "\<lparr>twin_config = cfg, last_ema = None, history = []\<rparr>"]
      predict_def [of "t\<lparr>last_ema := None, history := []\<rparr>"])

theorem digital_twin_predictor_witness:
  "predict (new_digital_twin default_ema_config) = None
   \<and> predict (update (new_digital_twin default_ema_config) 1028) = Some 1028
   \<and> predict (update (update (new_digital_twin default_ema_config) 1028) 1040) = Some (5158 / 5)
   \<and> predict (fit_from_series (update (new_digital_twin default_ema_config) 1028) [1028, 1040])
       = Some (5158 / 5)"
  using digital_twin_predictor [of default_ema_config
      "update (new_digital_twin default_ema_config) 1028" 1040 1028 "[1028, 1040]"]
    digital_twin_predictor [of default_ema_config
      "new_digital_twin default_ema_config" 1028 0 "[]"]
  by (simp add: predict_def update_def new_digital_twin_def default_ema_config_def
      reset_def deque_append_def fit_from_series_def Let_def)

section \<open>Properties of the sampling engine\<close>

text \<open>
  Claim C8.  \<^verbatim>\<open>decide\<close> is a function of its two arguments alone (it is a HOL function:
  total, deterministic and without state).  An anomaly gives the level "critico"
  (critical) whatever the z-score; without an anomaly, no z-score gives "normal" with the
  reason of insufficient statistics, \<open>\<bar>z\<bar> \<ge> 2\<close> gives "atencao" (attention) and
  \<open>\<bar>z\<bar> < 2\<close> gives "normal".
\<close>

theorem decide_cases:
  "level (decide True z) = ''critico''
   \<and> decide False None = \<lparr>level = ''normal'', reason = InsufficientStatistics\<rparr>
   \<and> (\<bar>x\<bar> \<ge> 2 \<longrightarrow> level (decide False (Some x)) = ''atencao'')
   \<and> (\<bar>y\<bar> < 2 \<longrightarrow> level (decide False (Some y)) = ''normal'')"
  by (simp add: decide_def Let_def)

theorem decide_cases_witness:
  "\<bar>5 / 2 :: real\<bar> \<ge> 2 \<and> \<bar>1 / 10 :: real\<bar> < 2
   \<and> level (decide True (Some (1 / 10))) = ''critico''
   \<and> level (decide False (Some (5 / 2))) = ''atencao''
   \<and> level (decide False (Some (1 / 10))) = ''normal''"
  using decide_cases [of "Some (1 / 10)" "5 / 2" "1 / 10"]
  by simp

section \<open>Properties of the anomaly detector and of the pipeline\<close>


lemma partial_update_history:
  "residuals_history (partial_update d r) = residuals_history d @ [r]"
  by (simp add: partial_update_def fit_def Let_def)

lemma partial_update_config: "detector_config (partial_update d r) = detector_config d"
  by (simp add: partial_update_def fit_def Let_def)

lemma partial_update_retrain:
  "(length (residuals_history d) + 1) mod 50 = 0 \<Longrightarrow>
     model (partial_update d r) =
       Some (IsolationForest (contamination (detector_config d)) 42 (residuals_history d @ [r]))
     \<and> fitted (partial_update d r)"
proof -
  assume h: "(length (residuals_history d) + 1) mod 50 = 0"
  then have "\<not> length (residuals_history d) + 1 < 10" by presburger
  with h show ?thesis by (simp add: partial_update_def fit_def Let_def)
qed

lemma partial_update_keep:
  "(length (residuals_history d) + 1) mod 50 \<noteq> 0 \<Longrightarrow>
     model (partial_update d r) = model d \<and> fitted (partial_update d r) = fitted d"
  by (simp add: partial_update_def Let_def)

lemma foldl_partial_update_history:
  "residuals_history (foldl partial_update d rs) = residuals_history d @ rs"
  by (induction rs arbitrary: d) (simp_all add: partial_update_history)

lemma fresh_detector_unfitted:
  "length rs < 50 \<Longrightarrow> \<not> fitted (foldl partial_update (new_anomaly_detector cfg) rs)"
proof (induction rs rule: rev_induct)
  case Nil
  show ?case by (simp add: new_anomaly_detector_def)
next
  case (snoc r rs)
  let ?d = "foldl partial_update (new_anomaly_detector cfg) rs"
  from snoc have u: "\<not> fitted ?d" by simp
  have "residuals_history ?d = rs"
    by (simp add: foldl_partial_update_history new_anomaly_detector_def)
  with snoc.prems have "(length (residuals_history ?d) + 1) mod 50 \<noteq> 0" by simp
  from partial_update_keep [OF this, of r] u show ?case by simp
qed

lemma sum_list_squares_nonneg: "0 \<le> (\<Sum>x\<leftarrow>xs. (x - (m::real))\<^sup>2)"
  by (induction xs) simp_all

lemma np_std_ddof1_nonneg: "0 \<le> np_std_ddof1 xs"
proof (cases xs)
  case Nil
  then show ?thesis by (simp add: np_std_ddof1_def)
next
  case (Cons y ys)
  then have "0 \<le> real (length xs) - 1" by simp
  then show ?thesis
    unfolding np_std_ddof1_def using sum_list_squares_nonneg [of "np_mean xs" xs]
    by simp
qed

lemma score_point_eq:
  "score_point api d r =
     Inr \<lparr>residual = r,
          zscore_residual = zscore_over (residuals_history d @ [r]) r,
          iforest_score = fst (iforest_signal api d r),
          is_anomaly = (snd (iforest_signal api d r)
             \<or> zscore_threshold (detector_config d)
                 \<le> \<bar>zscore_over (residuals_history d @ [r]) r\<bar>)\<rparr>"
  by (cases "residuals_history d")
     (auto simp add: score_point_def zscore_over_def py_truediv_def Let_def split: prod.splits)

lemma iforest_signal_unfitted:
  "\<not> fitted d \<or> model d = None \<Longrightarrow> iforest_signal api d r = (0, False)"
  by (auto simp add: iforest_signal_def)

lemma zscore_over_degenerate:
  "length sample \<le> 1 \<or> np_std_ddof1 sample = 0 \<Longrightarrow> zscore_over sample x = 0"
  by (auto simp add: zscore_over_def)


lemma score_point_with_exact: "score_point_with exact_arith api d r = score_point api d r"
  by (simp add: score_point_with_def score_point_def exact_arith_def fl_truediv_def
      py_truediv_def Let_def)





text \<open>
  Claim C4.  \<^verbatim>\<open>partial_update\<close> appends the residual; exactly when the new length is
  a multiple of 50 (which is then positive) it replaces the forest by one trained on the
  whole history and marks the detector fitted, and otherwise leaves forest and flag as they
  were.  \<^verbatim>\<open>fit\<close> on fewer than 10 residuals leaves the detector unfitted.  An unfitted
  detector scores with forest score 0 and flag false, so that the decision is the z-score
  test.  In particular a new detector is still unfitted after fewer than 50 observations.
\<close>

theorem observe_retrain_policy:
  "residuals_history (partial_update d r) = residuals_history d @ [r]
   \<and> ((length (residuals_history d) + 1) mod 50 = 0 \<longrightarrow>
        model (partial_update d r) =
          Some (IsolationForest (contamination (detector_config d)) 42
                  (residuals_history d @ [r]))
        \<and> fitted (partial_update d r))
   \<and> ((length (residuals_history d) + 1) mod 50 \<noteq> 0 \<longrightarrow>
        model (partial_update d r) = model d \<and> fitted (partial_update d r) = fitted d)
   \<and> (length rs < 10 \<longrightarrow>
        \<not> fitted (fit d rs) \<and> model (fit d rs) = model d
        \<and> residuals_history (fit d rs) = residuals_history d)
   \<and> (\<not> fitted d \<longrightarrow>
        (\<exists>sc. score_point api d x = Inr sc \<and> iforest_score sc = 0
           \<and> iforest_signal api d x = (0, False)
           \<and> is_anomaly sc = (zscore_threshold (detector_config d) \<le> \<bar>zscore_residual sc\<bar>)))
   \<and> (length obs < 50 \<longrightarrow>
        \<not> fitted (foldl partial_update (new_anomaly_detector cfg) obs))"
  using partial_update_retrain [of d r] partial_update_keep [of d r]
    fresh_detector_unfitted [of obs cfg]
  by (simp add: partial_update_history score_point_eq iforest_signal_unfitted fit_def)

theorem observe_retrain_policy_witness:
  "(length (residuals_history detector49) + 1) mod 50 = 0
   \<and> model (partial_update detector49 1)
       = Some (IsolationForest (3 / 100) 42 (replicate 49 0 @ [1]))
   \<and> fitted (partial_update detector49 1)
   \<and> (length (residuals_history (new_anomaly_detector default_anomaly_config)) + 1) mod 50 \<noteq> 0
   \<and> model (partial_update (new_anomaly_detector default_anomaly_config) 1) = None
   \<and> \<not> fitted (partial_update (new_anomaly_detector default_anomaly_config) 1)
   \<and> length [1, 2, 3 :: real] < 10
   \<and> \<not> fitted (fit detector49 [1, 2, 3])
   \<and> (\<exists>sc. score_point constant_forest_api detector49 7 = Inr sc \<and> iforest_score sc = 0)
   \<and> length [1, 2, 3 :: real] < 50
   \<and> \<not> fitted (foldl partial_update (new_anomaly_detector default_anomaly_config) [1, 2, 3])"
  using observe_retrain_policy [of detector49 1 "[1, 2, 3]" constant_forest_api 7 "[1, 2, 3]"
      default_anomaly_config]
    observe_retrain_policy [of "new_anomaly_detector default_anomaly_config" 1 "[]"
      constant_forest_api 7]
  by (auto simp add: detector49_def new_anomaly_detector_def default_anomaly_config_def)

text \<open>
  Claim C10.  Every \<^verbatim>\<open>partial_update\<close> extends the history by exactly its residual
  at the end, whether it retrains or not, so a sequence of observations appends the
  sequence; retraining on the recorded history replaces the forest and leaves the history
  as it is, so its length never decreases.
\<close>

theorem history_append_only:
  "residuals_history (partial_update d r) = residuals_history d @ [r]
   \<and> length (residuals_history (partial_update d r)) = length (residuals_history d) + 1
   \<and> residuals_history (foldl partial_update d rs) = residuals_history d @ rs
   \<and> residuals_history (fit d (residuals_history d)) = residuals_history d
   \<and> ((length (residuals_history d) + 1) mod 50 = 0 \<longrightarrow>
        model (partial_update d r) =
          Some (IsolationForest (contamination (detector_config d)) 42
                  (residuals_history d @ [r]))
        \<and> length (residuals_history (partial_update d r)) \<ge> length (residuals_history d))
   \<and> (length (residuals_history d) \<ge> 10 \<longrightarrow>
        model (fit d (residuals_history d)) =
          Some (IsolationForest (contamination (detector_config d)) 42 (residuals_history d)))"
  using partial_update_retrain [of d r]
  by (simp add: partial_update_history foldl_partial_update_history fit_def)

theorem history_append_only_witness:
  "(length (residuals_history detector49) + 1) mod 50 = 0
   \<and> length (residuals_history detector49) \<ge> 10
   \<and> residuals_history (partial_update detector49 1) = replicate 49 0 @ [1]
   \<and> model (partial_update detector49 1)
       = Some (IsolationForest (3 / 100) 42 (replicate 49 0 @ [1]))
   \<and> model (fit detector49 (residuals_history detector49))
       = Some (IsolationForest (3 / 100) 42 (replicate 49 0))"
  using history_append_only [of detector49 1 "[]"]
  by (simp add: detector49_def default_anomaly_config_def)

lemma process_value_eq:
  "process_value api now st v src ts =
     (let pred_before = (case predict (digital_twin st) of None \<Rightarrow> v | Some p \<Rightarrow> p);
          r = v - pred_before;
          det = partial_update (anomaly_detector st) r;
          z = zscore_over (residuals_history (anomaly_detector st) @ [r, r]) r;
          anom = (snd (iforest_signal api det r)
                    \<or> zscore_threshold (detector_config (anomaly_detector st)) \<le> \<bar>z\<bar>);
          m = \<lparr>timestamp = (case ts of None \<Rightarrow> now | Some t \<Rightarrow> t),
               value_real = v, value_pred = Some pred_before, m_residual = Some r,
               m_zscore_residual = Some z,
               m_iforest_score = Some (fst (iforest_signal api det r)),
               m_is_anomaly = Some anom,
               sampling_level = Some (level (decide anom (Some z))),
               source = src\<rparr>
      in Inr (measurement.extend m \<lparr>sampling_reason = reason (decide anom (Some z))\<rparr>,
              st\<lparr>digital_twin := update (digital_twin st) v,
                 anomaly_detector := det,
                 measurements := measurements st @ [m],
                 alerts := (if anom
                            then alerts st @ [\<lparr>alert_level = ''warning'', alert_value = v\<rparr>]
                            else alerts st)\<rparr>))"
  by (simp add: process_value_def score_point_eq partial_update_history partial_update_config
      Let_def)

text \<open>
  Claim C3.  In the pipeline \<^verbatim>\<open>partial_update\<close> appends the residual \<open>r\<close> to the history
  \<open>h\<close> before \<^verbatim>\<open>score_point\<close> runs on the updated detector, and \<^verbatim>\<open>score_point\<close>
  appends \<open>r\<close> again: the z-score stored in the measurement is the one of \<open>r\<close> against
  the sample \<open>h @ [r, r]\<close>, in which \<open>r\<close> occurs twice more than in \<open>h\<close>, while the history
  kept afterwards is \<open>h @ [r]\<close>.
\<close>

theorem residual_counted_twice:
  "\<exists>out st1 sc.
     process_value api now st v src ts = Inr (out, st1)
     \<and> (let r = v - (case predict (digital_twin st) of None \<Rightarrow> v | Some p \<Rightarrow> p);
            h = residuals_history (anomaly_detector st)
        in m_residual out = Some r
           \<and> residuals_history (partial_update (anomaly_detector st) r) = h @ [r]
           \<and> score_point api (partial_update (anomaly_detector st) r) r = Inr sc
           \<and> m_zscore_residual out = Some (zscore_residual sc)
           \<and> zscore_residual sc = zscore_over (h @ [r, r]) r
           \<and> count_list (h @ [r, r]) r = count_list h r + 2
           \<and> residuals_history (anomaly_detector st1) = h @ [r])"
  by (simp add: process_value_eq score_point_eq partial_update_history Let_def
      measurement.extend_def)

text \<open>
  Claim C2, amended.  For every measurement the pipeline emits, \<open>value_pred\<close> is the
  predictor's estimate before the value was incorporated whenever there is one, and the
  residual is the value minus that estimate; when the predictor has no estimate yet (the
  first measurement of a predictor instance) \<open>value_pred\<close> is the measured value itself,
  not null, and the residual is 0.  After any measurement the predictor has an estimate.
\<close>

theorem value_pred_never_null:
  "\<exists>out st1.
     process_value api now st v src ts = Inr (out, st1)
     \<and> value_pred out = Some (case predict (digital_twin st) of None \<Rightarrow> v | Some p \<Rightarrow> p)
     \<and> value_pred out \<noteq> None
     \<and> (predict (digital_twin st) = None \<longrightarrow>
          value_pred out = Some v \<and> m_residual out = Some 0)
     \<and> (predict (digital_twin st) = Some p \<longrightarrow>
          value_pred out = Some p \<and> m_residual out = Some (v - p))
     \<and> predict (digital_twin st1) \<noteq> None"
  by (auto simp add: process_value_eq Let_def measurement.extend_def predict_def update_def
      split: option.splits)


lemma zscore_over_all_zero: "\<forall>x \<in> set s. x = 0 \<Longrightarrow> zscore_over s 0 = 0"
proof -
  assume h: "\<forall>x \<in> set s. x = 0"
  then have m: "sum_list s = 0" by (induction s) simp_all
  then have "np_mean s = 0" by (simp add: np_mean_def)
  then show ?thesis by (simp add: zscore_over_def)
qed

lemma sqrt_18_5: "(48 / 5) / sqrt (128 / 5) = sqrt (18 / 5)"
proof -
  have "sqrt (18 / 5) * sqrt (128 / 5) = sqrt ((48 / 5)\<^sup>2)"
    by (simp add: real_sqrt_mult [symmetric] power2_eq_square)
  then have "sqrt (18 / 5) * sqrt (128 / 5) = 48 / 5" by simp
  moreover have "sqrt (128 / 5) \<noteq> 0" by simp
  ultimately show ?thesis by (simp add: field_simps)
qed

lemma zscore_over_ninth:
  "zscore_over [0, 0, 0, 0, 0, 0, 0, 0, 12, 12] 12 = sqrt (18 / 5)"
proof -
  have m: "np_mean [0, 0, 0, 0, 0, 0, 0, 0, 12, 12] = 12 / 5"
    by (simp add: np_mean_def)
  have s: "np_std_ddof1 [0, 0, 0, 0, 0, 0, 0, 0, 12, 12] = sqrt (128 / 5)"
    by (simp add: np_std_ddof1_def m power2_eq_square)
  show ?thesis
    using sqrt_18_5 by (simp add: zscore_over_def m s)
qed

lemma sqrt_18_5_bounds: "0 < sqrt (18 / 5)" "sqrt (18 / 5) < 2"
proof -
  show "0 < sqrt (18 / 5)" by simp
  show "sqrt (18 / 5) < 2" using real_sqrt_less_mono [of "18 / 5" 4] by simp
qed

lemma sqrt_18_5_tests: "\<not> 3 \<le> \<bar>sqrt (18 / 5)\<bar>" "\<not> 2 \<le> \<bar>sqrt (18 / 5)\<bar>"
  using sqrt_18_5_bounds by simp_all



lemma process_values_append:
  "process_values api now st (xs @ ys) src =
     (case process_values api now st xs src of
        Inl e \<Rightarrow> Inl e
      | Inr (outs1, st1) \<Rightarrow>
          (case process_values api now st1 ys src of
             Inl e \<Rightarrow> Inl e
           | Inr (outs2, st2) \<Rightarrow> Inr (outs1 @ outs2, st2)))"
  by (induction xs arbitrary: st) (auto split: sum.splits prod.splits)

lemma quiet_step:
  assumes q: "quiet_state st k" and k: "Suc k < 50"
  shows "\<exists>st1. process_value api now st 1028 src None = Inr (quiet_output now src, st1)
           \<and> quiet_state st1 (Suc k) \<and> last_ema (digital_twin st1) = Some 1028"
proof -
  let ?det = "partial_update (anomaly_detector st) 0"
  have h: "residuals_history (anomaly_detector st) = replicate k 0"
    and c: "detector_config (anomaly_detector st) = default_anomaly_config"
    and f: "\<not> fitted (anomaly_detector st)"
    using q by (simp_all add: quiet_state_def)
  have pb: "(case predict (digital_twin st) of None \<Rightarrow> 1028 | Some p \<Rightarrow> p) = (1028::real)"
    using q by (auto simp add: quiet_state_def predict_def)
  have "(length (residuals_history (anomaly_detector st)) + 1) mod 50 \<noteq> 0"
    using k by (simp add: h)
  from partial_update_keep [OF this, of 0] f
  have f1: "\<not> fitted ?det" by simp
  then have sig: "iforest_signal api ?det 0 = (0, False)"
    by (simp add: iforest_signal_def)
  have z: "zscore_over (replicate k 0 @ [0, 0]) 0 = 0"
    by (intro zscore_over_all_zero) simp
  have tw: "last_ema (update (digital_twin st) 1028) = Some 1028"
    "alpha (twin_config (update (digital_twin st) 1028)) = 3 / 10"
    using q by (auto simp add: quiet_state_def update_def Let_def)
  have out: "process_value api now st 1028 src None =
     Inr (quiet_output now src,
          st\<lparr>digital_twin := update (digital_twin st) 1028,
             anomaly_detector := ?det,
             measurements := measurements st
               @ [\<lparr>timestamp = now, value_real = 1028, value_pred = Some 1028,
                    m_residual = Some 0, m_zscore_residual = Some 0,
                    m_iforest_score = Some 0, m_is_anomaly = Some False,
                    sampling_level = Some ''normal'', source = src\<rparr>],
             alerts := alerts st\<rparr>)"
    by (simp add: process_value_eq pb sig h z c Let_def quiet_output_def
        measurement.extend_def decide_def default_anomaly_config_def)
  have "quiet_state
          (st\<lparr>digital_twin := update (digital_twin st) 1028,
              anomaly_detector := ?det,
              measurements := measurements st
                @ [\<lparr>timestamp = now, value_real = 1028, value_pred = Some 1028,
                     m_residual = Some 0, m_zscore_residual = Some 0,
                     m_iforest_score = Some 0, m_is_anomaly = Some False,
                     sampling_level = Some ''normal'', source = src\<rparr>],
              alerts := alerts st\<rparr>) (Suc k)"
    using f1 by (simp add: quiet_state_def tw partial_update_history partial_update_config
        h c replicate_append_same)
  with out tw show ?thesis by simp
qed

lemma quiet_run:
  "quiet_state st k \<Longrightarrow> k + n < 50 \<Longrightarrow>
     \<exists>st1. process_values api now st (replicate n 1028) src
              = Inr (replicate n (quiet_output now src), st1)
        \<and> quiet_state st1 (k + n)
        \<and> (0 < n \<longrightarrow> last_ema (digital_twin st1) = Some 1028)"
proof (induction n arbitrary: st k)
  case 0
  then show ?case by simp
next
  case (Suc n)
  from Suc.prems have "Suc k < 50" by simp
  from quiet_step [OF Suc.prems(1) this, of api now src]
  obtain st1 where s1: "process_value api now st 1028 src None = Inr (quiet_output now src, st1)"
    and q1: "quiet_state st1 (Suc k)" and e1: "last_ema (digital_twin st1) = Some 1028"
    by blast
  from Suc.prems have "Suc k + n < 50" by simp
  from Suc.IH [OF q1 this]
  obtain st2 where s2: "process_values api now st1 (replicate n 1028) src
                          = Inr (replicate n (quiet_output now src), st2)"
    and q2: "quiet_state st2 (Suc k + n)"
    and e2: "0 < n \<longrightarrow> last_ema (digital_twin st2) = Some 1028"
    by blast
  have "last_ema (digital_twin st2) = Some 1028"
  proof (cases n)
    case 0
    with s2 e1 show ?thesis by simp
  next
    case (Suc m)
    with e2 show ?thesis by simp
  qed
  with s1 s2 q2 show ?case by simp
qed

lemma spike_step:
  assumes q: "quiet_state st 8" and e: "last_ema (digital_twin st) = Some 1028"
  shows "\<exists>st1. process_value api now st 1040 src None = Inr (spike_output now src, st1)"
proof -
  let ?det = "partial_update (anomaly_detector st) 12"
  have h: "residuals_history (anomaly_detector st) = replicate 8 0"
    and c: "detector_config (anomaly_detector st) = default_anomaly_config"
    and f: "\<not> fitted (anomaly_detector st)"
    using q by (simp_all add: quiet_state_def)
  have "(length (residuals_history (anomaly_detector st)) + 1) mod 50 \<noteq> 0"
    by (simp add: h)
  from partial_update_keep [OF this, of 12] f
  have "\<not> fitted ?det" by simp
  then have sig: "iforest_signal api ?det 12 = (0, False)"
    by (simp add: iforest_signal_def)
  have z: "zscore_over (replicate 8 0 @ [12, 12]) 12 = sqrt (18 / 5)"
    using zscore_over_ninth by (simp add: eval_nat_numeral)
  show ?thesis
    using sqrt_18_5_tests
    by (simp add: process_value_eq predict_def e sig h z c Let_def spike_output_def
        measurement.extend_def decide_def default_anomaly_config_def)
qed

lemma initial_state_quiet: "quiet_state initial_state 0"
  by (simp add: quiet_state_def initial_state_def new_digital_twin_def
      new_anomaly_detector_def)

lemma nine_values_run:
  "\<exists>st. process_values api now initial_state
           [1028, 1028, 1028, 1028, 1028, 1028, 1028, 1028, 1040] src
         = Inr (replicate 8 (quiet_output now src) @ [spike_output now src], st)"
proof -
  from quiet_run [OF initial_state_quiet, of 8 api now src]
  obtain st8 where r8: "process_values api now initial_state (replicate 8 1028) src
                          = Inr (replicate 8 (quiet_output now src), st8)"
    and q8: "quiet_state st8 8" and e8: "last_ema (digital_twin st8) = Some 1028"
    by auto
  from spike_step [OF q8 e8, of api now src]
  obtain st9 where r9: "process_value api now st8 1040 src None = Inr (spike_output now src, st9)"
    by blast
  have "[1028, 1028, 1028, 1028, 1028, 1028, 1028, 1028, 1040] = replicate 8 1028 @ [1040 :: real]"
    by (simp add: eval_nat_numeral)
  then show ?thesis
    using r8 r9 by (simp only: process_values_append) simp
qed


text \<open>
  Claim C1, amended.  The nine values 1028 (eight times) and 1040, fed value by value to
  the pipeline in its initial state (smoothing factor 0.3), give residual 0 and z-score 0
  for the first eight and, for the ninth, residual 12 and the non-zero z-score
  \<open>sqrt (18 / 5)\<close>, about 1.897, which is below both thresholds 2 and 3: no measurement is
  an anomaly and every sampling level is "normal".
\<close>

theorem nine_value_sequence:
  "\<exists>outs st.
     process_values api now initial_state
       [1028, 1028, 1028, 1028, 1028, 1028, 1028, 1028, 1040] src = Inr (outs, st)
     \<and> map m_residual outs = replicate 8 (Some 0) @ [Some 12]
     \<and> map m_zscore_residual outs = replicate 8 (Some 0) @ [Some (sqrt (18 / 5))]
     \<and> 0 < sqrt (18 / 5) \<and> sqrt (18 / 5) < 2
     \<and> map value_pred outs = replicate 9 (Some 1028)
     \<and> map m_is_anomaly outs = replicate 9 (Some False)
     \<and> map sampling_level outs = replicate 9 (Some ''normal'')"
proof -
  from nine_values_run [of api now src]
  obtain st where "process_values api now initial_state
       [1028, 1028, 1028, 1028, 1028, 1028, 1028, 1028, 1040] src
     = Inr (replicate 8 (quiet_output now src) @ [spike_output now src], st)"
    by blast
  then show ?thesis
    using sqrt_18_5_bounds
    by (simp add: quiet_output_def spike_output_def eval_nat_numeral)
qed

text \<open>
  Against claim C1 as stated: the ninth measurement is not an anomaly and its sampling
  level is "normal", not "critico".
\<close>

theorem nine_value_sequence_not_critical:
  "\<not> isl (process_values constant_forest_api 0 initial_state
            [1028, 1028, 1028, 1028, 1028, 1028, 1028, 1028, 1040] ''upload'')
   \<and> m_is_anomaly (fst (projr (process_values constant_forest_api 0 initial_state
            [1028, 1028, 1028, 1028, 1028, 1028, 1028, 1028, 1040] ''upload'')) ! 8)
       = Some False
   \<and> sampling_level (fst (projr (process_values constant_forest_api 0 initial_state
            [1028, 1028, 1028, 1028, 1028, 1028, 1028, 1028, 1040] ''upload'')) ! 8)
       = Some ''normal''"
proof -
  from nine_values_run [of constant_forest_api 0 "''upload''"]
  obtain st where "process_values constant_forest_api 0 initial_state
       [1028, 1028, 1028, 1028, 1028, 1028, 1028, 1028, 1040] ''upload''
     = Inr (replicate 8 (quiet_output 0 ''upload'') @ [spike_output 0 ''upload''], st)"
    by blast
  then show ?thesis
    by (simp add: spike_output_def nth_append)
qed

text \<open>
  Against claim C2 as stated: the first measurement of a fresh predictor has the value
  itself as \<open>value_pred\<close>, not null.
\<close>

theorem first_value_pred_not_null:
  "\<not> isl (process_value constant_forest_api 0 initial_state 1028 ''simulator'' None)
   \<and> value_pred (fst (projr
        (process_value constant_forest_api 0 initial_state 1028 ''simulator'' None)))
       = Some 1028"
  by (simp add: process_value_eq Let_def predict_def initial_state_def new_digital_twin_def
      measurement.extend_def)

theorem value_pred_never_null_witness:
  "predict (digital_twin initial_state) = None
   \<and> (\<exists>out st1. process_value constant_forest_api 0 initial_state 1028 ''simulator'' None
                    = Inr (out, st1)
          \<and> value_pred out = Some 1028 \<and> m_residual out = Some 0)
   \<and> predict (digital_twin
        (initial_state\<lparr>digital_twin := update (digital_twin initial_state) 1028\<rparr>)) = Some 1028
   \<and> (\<exists>out st1. process_value constant_forest_api 0
                    (initial_state\<lparr>digital_twin := update (digital_twin initial_state) 1028\<rparr>)
                    1040 ''simulator'' None = Inr (out, st1)
          \<and> value_pred out = Some 1028 \<and> m_residual out = Some 12)"
  using value_pred_never_null
      [of constant_forest_api 0 initial_state 1028 "''simulator''" None 0]
    value_pred_never_null
      [of constant_forest_api 0
          "initial_state\<lparr>digital_twin := update (digital_twin initial_state) 1028\<rparr>"
          1040 "''simulator''" None 1028]
  by (auto simp add: predict_def initial_state_def new_digital_twin_def update_def Let_def)

section \<open>Properties of the process control statistics\<close>















lemma compute_cp_cpk_constant:
  "compute_cp_cpk exact_arith [5, 5, 5] 0 10 =
     Inr \<lparr>stats_mean = 5, stats_std = 0, stats_r = 0, stats_cp = None,
          stats_cpk = None, stats_lsl = 0, stats_usl = 10, stats_n = 3\<rparr>"
proof -
  have m: "np_mean [5, 5, 5] = 5" by (simp add: np_mean_def)
  have s: "np_std_ddof1 [5, 5, 5] = 0" by (simp add: np_std_ddof1_def m)
  show ?thesis
    by (simp add: compute_cp_cpk_def and_then_def np_max_def np_min_def exact_arith_def m s
        Let_def)
qed
















end
